theory Spec2Isabelle
  imports Complex_Main "HOL-Library.Char_ord"
begin

section \<open>Data model\<close>

text \<open>
  JavaScript strings are modelled as \<^typ>\<open>string\<close>: one \<^typ>\<open>char\<close> per code unit, which
  covers the code units below 256. Numbers are \<^typ>\<open>real\<close> (no \<open>NaN\<close>, no infinities).
\<close>

record voice =
  name :: string
  lang :: string

record settings =
  rate :: real
  pitch :: real
  volume :: real
  voice :: "voice option"

text \<open>
  A \<open>SpeechSynthesisUtterance\<close> as \<open>speak\<close> fills it: the four settings and the text
  (the property \<open>text\<close>; the word is reserved here).
\<close>

record utterance = settings +
  utterance_text :: string

text \<open>
  An options object (the second argument of \<open>speak\<close>, the argument of \<open>updateSettings\<close>):
  \<open>None\<close> is a property that is absent; for the voice, \<open>Some None\<close> is an explicit \<open>null\<close>.
\<close>

record options =
  opt_rate :: "real option"
  opt_pitch :: "real option"
  opt_volume :: "real option"
  opt_voice :: "voice option option"

text \<open>
  The speech engine (\<open>window.speechSynthesis\<close>) belongs to the browser, not to the
  repository. Its state is modelled after the Web Speech API: the two flags the source
  reads, the utterances handed over and not yet finished or cancelled, the utterances that
  \<open>cancel()\<close> has removed and that the engine has not yet told so, the voices that
  \<open>getVoices()\<close> returns, and whether \<open>speak()\<close> returns normally or throws.
\<close>

record engine =
  speaking :: bool
  paused :: bool
  queue :: "utterance list"
  dropped :: "utterance list"
  catalog :: "voice list"
  accepts :: bool

text \<open>
  What the source reads from the page: the engine (absent in a browser without speech
  synthesis), the text content that the HTML parser gives for a string assigned to
  \<open>innerHTML\<close> of a fresh \<open>div\<close>, and whether \<open>window.AITutor.NotificationManager\<close> exists.
\<close>

record window =
  speechSynthesis :: "engine option"
  textContent :: "string \<Rightarrow> string"
  innerText :: "string \<Rightarrow> string"
  notificationManager :: bool

text \<open>Everything the source does to the outside, in the order it happens.\<close>

datatype effect =
    ConsoleWarn string
  | ConsoleLog string
  | ConsoleError string string
  | ConsoleLogVoices nat "string option"
  | EngineGetVoices
  | EngineCancel
  | EngineSpeak utterance
  | EnginePause
  | EngineResume
  | ShowSpeaking
  | ShowStopped
  | ShowPaused
  | ShowResumed
  | Notification string string nat

record manager =
  synth :: "engine option"
  voices :: "voice list"
  currentUtterance :: "utterance option"
  isInitialized :: bool
  settings :: settings
  trace :: "effect list"

section \<open>The text normalizer (\<open>SpeechManager.prepareText\<close>)\<close>

text \<open>
  The character classes of the regular expressions, written out for the code units
  below 256.
\<close>

definition isSpace :: "char \<Rightarrow> bool" where
  \<comment> \<open>The class \<open>\s\<close>: tab, line feed, vertical tab, form feed, carriage return, space,
      no-break space. The same set is what \<open>String.prototype.trim\<close> removes.\<close>
  "isSpace c = (c \<in> set [CHR 0x09, CHR 0x0A, CHR 0x0B, CHR 0x0C, CHR 0x0D, CHR 0x20, CHR 0xA0])"

definition isNewline :: "char \<Rightarrow> bool" where
  \<comment> \<open>The single character \<open>\n\<close>.\<close>
  "isNewline c = (c = CHR 0x0A)"

definition isDigit :: "char \<Rightarrow> bool" where
  \<comment> \<open>The class \<open>\d\<close>.\<close>
  "isDigit c = (CHR ''0'' \<le> c \<and> c \<le> CHR ''9'')"

definition isWord :: "char \<Rightarrow> bool" where
  \<comment> \<open>The class \<open>\w\<close>, which decides where \<open>\b\<close> holds.\<close>
  "isWord c = ((CHR ''a'' \<le> c \<and> c \<le> CHR ''z'') \<or> (CHR ''A'' \<le> c \<and> c \<le> CHR ''Z'')
     \<or> isDigit c \<or> c = CHR ''_'')"

definition isPunct :: "char \<Rightarrow> bool" where
  \<comment> \<open>The class \<open>[.!?]\<close>.\<close>
  "isPunct c = (c = CHR ''.'' \<or> c = CHR ''!'' \<or> c = CHR ''?'')"

fun startsWith :: "(char \<Rightarrow> bool) \<Rightarrow> string \<Rightarrow> bool" where
  "startsWith P [] = False"
| "startsWith P (c # cs) = P c"

definition wordBoundary :: "bool \<Rightarrow> string \<Rightarrow> bool" where
  \<comment> \<open>The assertion \<open>\b\<close> at a position: \<open>prev\<close> says whether the character before the
      position is a word character (False at the start of the string), the string is
      what follows the position.\<close>
  "wordBoundary prev s = (prev \<noteq> startsWith isWord s)"

text \<open>
  Each \<open>replace(/re/g, ...)\<close> scans the string from the left: at a position where the
  expression matches, the match is replaced and the scan goes on behind the match;
  elsewhere the character is copied and the scan moves one position on.
\<close>

function replaceWhitespace :: "string \<Rightarrow> string" where
  \<comment> \<open>\<open>.replace(/\s+/g, ' ')\<close>\<close>
  "replaceWhitespace [] = []"
| "replaceWhitespace (c # cs) =
     (if isSpace c then CHR '' '' # replaceWhitespace (dropWhile isSpace cs)
      else c # replaceWhitespace cs)"
  by pat_completeness auto
termination
  by (relation "measure length") (auto simp: less_Suc_eq_le length_dropWhile_le)

function replaceNewlines :: "string \<Rightarrow> string" where
  \<comment> \<open>\<open>.replace(/\n+/g, '. ')\<close>\<close>
  "replaceNewlines [] = []"
| "replaceNewlines (c # cs) =
     (if isNewline c then ''. '' @ replaceNewlines (dropWhile isNewline cs)
      else c # replaceNewlines cs)"
  by pat_completeness auto
termination
  by (relation "measure length") (auto simp: less_Suc_eq_le length_dropWhile_le)

function replaceDuplicatePunctuation :: "string \<Rightarrow> string" where
  \<comment> \<open>\<open>.replace(/([.!?])\s*([.!?])+/g, '$1')\<close>: a mark, any whitespace, then one or more
      marks; the whole match is replaced by its first mark.\<close>
  "replaceDuplicatePunctuation [] = []"
| "replaceDuplicatePunctuation (c # cs) =
     (if isPunct c \<and> startsWith isPunct (dropWhile isSpace cs)
      then c # replaceDuplicatePunctuation (dropWhile isPunct (dropWhile isSpace cs))
      else c # replaceDuplicatePunctuation cs)"
  by pat_completeness auto
termination
  by (relation "measure length")
     (auto simp: less_Suc_eq_le intro: order_trans [OF length_dropWhile_le length_dropWhile_le])

fun stripPrefix :: "string \<Rightarrow> string \<Rightarrow> string option" where
  "stripPrefix [] s = Some s"
| "stripPrefix (p # ps) [] = None"
| "stripPrefix (p # ps) (c # cs) = (if p = c then stripPrefix ps cs else None)"

definition matchUrl :: "string \<Rightarrow> (string \<times> string) option" where
  \<comment> \<open>\<open>https?:\/\/[^\s]+\<close> matched at the head of the string: the characters matched by
      \<open>[^\s]+\<close> and the rest of the string behind the match.\<close>
  "matchUrl s =
     (case (case stripPrefix ''https://'' s of Some r \<Rightarrow> Some r | None \<Rightarrow> stripPrefix ''http://'' s) of
        None \<Rightarrow> None
      | Some r \<Rightarrow>
          if takeWhile (\<lambda>c. \<not> isSpace c) r = [] then None
          else Some (takeWhile (\<lambda>c. \<not> isSpace c) r, dropWhile (\<lambda>c. \<not> isSpace c) r))"

lemma stripPrefix_length: "stripPrefix p s = Some r \<Longrightarrow> length r \<le> length s"
  by (induction p s rule: stripPrefix.induct) (auto split: if_splits)

lemma matchUrl_length:
  assumes "matchUrl s = Some (body, rest)"
  shows "length rest < length s"
proof -
  from assms obtain r where r: "length r \<le> length s"
    and b: "takeWhile (\<lambda>c. \<not> isSpace c) r \<noteq> []"
    and rest: "rest = dropWhile (\<lambda>c. \<not> isSpace c) r"
    by (auto simp: matchUrl_def split: option.splits if_splits dest: stripPrefix_length)
  have "length (takeWhile (\<lambda>c. \<not> isSpace c) r) + length rest = length r"
    unfolding rest by (metis length_append takeWhile_dropWhile_id)
  with b r show ?thesis by (cases "takeWhile (\<lambda>c. \<not> isSpace c) r") auto
qed

function replaceUrls :: "bool \<Rightarrow> string \<Rightarrow> string" where
  \<comment> \<open>\<open>.replace(/\b(https?:\/\/[^\s]+)/g, 'link')\<close>; \<open>prev\<close> as in \<open>wordBoundary\<close>.\<close>
  "replaceUrls prev [] = []"
| "replaceUrls prev (c # cs) =
     (case matchUrl (c # cs) of
        None \<Rightarrow> c # replaceUrls (isWord c) cs
      | Some (body, rest) \<Rightarrow>
          if wordBoundary prev (c # cs) then ''link'' @ replaceUrls (isWord (last body)) rest
          else c # replaceUrls (isWord c) cs)"
  by pat_completeness auto
termination
  by (relation "measure (\<lambda>(prev, s). length s)") (auto dest: matchUrl_length)

fun join :: "string \<Rightarrow> string list \<Rightarrow> string" where
  \<comment> \<open>\<open>Array.prototype.join\<close>\<close>
  "join sep [] = []"
| "join sep [x] = x"
| "join sep (x # y # ys) = x @ sep @ join sep (y # ys)"

definition spellOut :: "string \<Rightarrow> string" where
  \<comment> \<open>the replacement callback: \<open>match.split('').join(' ')\<close>\<close>
  "spellOut m = join '' '' (map (\<lambda>c. [c]) m)"

definition numberAt :: "bool \<Rightarrow> string \<Rightarrow> bool" where
  \<comment> \<open>\<open>\b\d{4,}\b\<close> matches at the head of the string: a run of at least four digits
      with a word boundary on each side. The digits before the closing \<open>\b\<close> are word
      characters, so that boundary is tested with \<open>prev = True\<close>; giving back digits
      never helps, since the position behind a shorter run has a digit on both sides.\<close>
  "numberAt prev s =
     (wordBoundary prev s \<and> 4 \<le> length (takeWhile isDigit s)
        \<and> wordBoundary True (dropWhile isDigit s))"

lemma numberAt_digit: "numberAt prev (c # cs) \<Longrightarrow> isDigit c"
  by (auto simp: numberAt_def split: if_splits)

function breakLongNumbers :: "bool \<Rightarrow> string \<Rightarrow> string" where
  \<comment> \<open>\<open>.replace(/\b\d{4,}\b/g, callback)\<close>; \<open>prev\<close> as in \<open>wordBoundary\<close>.\<close>
  "breakLongNumbers prev [] = []"
| "breakLongNumbers prev (c # cs) =
     (if numberAt prev (c # cs)
      then spellOut (takeWhile isDigit (c # cs)) @ breakLongNumbers True (dropWhile isDigit (c # cs))
      else c # breakLongNumbers (isWord c) cs)"
  by pat_completeness auto
termination
proof (relation "measure (\<lambda>(prev, s). length s)")
  fix prev :: bool and c :: char and cs :: string
  assume "numberAt prev (c # cs)"
  then have "isDigit c" by (rule numberAt_digit)
  then have "length (dropWhile isDigit (c # cs)) \<le> length cs"
    by (simp add: length_dropWhile_le)
  then show "((True, dropWhile isDigit (c # cs)), (prev, c # cs)) \<in> measure (\<lambda>(prev, s). length s)"
    by simp
qed auto

definition trim :: "string \<Rightarrow> string" where
  \<comment> \<open>\<open>String.prototype.trim\<close>\<close>
  "trim s = rev (dropWhile isSpace (rev (dropWhile isSpace s)))"

definition truncationNotice :: string where
  "truncationNotice = ''... text truncated for speech.''"

definition beforeNumbers :: "string \<Rightarrow> string" where
  \<comment> \<open>the first four \<open>replace\<close> calls of the chain\<close>
  "beforeNumbers s =
     replaceUrls False (replaceDuplicatePunctuation (replaceNewlines (replaceWhitespace s)))"

definition cleanUp :: "string \<Rightarrow> string" where
  \<comment> \<open>the whole chain: the five \<open>replace\<close> calls and the final \<open>trim\<close>\<close>
  "cleanUp s = trim (breakLongNumbers False (beforeNumbers s))"

definition limitLength :: "string \<Rightarrow> string" where
  \<comment> \<open>\<open>if (cleanText.length > 3000) cleanText = cleanText.substring(0, 3000) + notice\<close>\<close>
  "limitLength s = (if 3000 < length s then take 3000 s @ truncationNotice else s)"

definition stripMarkup :: "window \<Rightarrow> string \<Rightarrow> string" where
  \<comment> \<open>\<open>tempDiv.textContent || tempDiv.innerText || ''\<close>\<close>
  "stripMarkup w t =
     (if textContent w t \<noteq> [] then textContent w t
      else if innerText w t \<noteq> [] then innerText w t else [])"

definition prepareText :: "window \<Rightarrow> string option \<Rightarrow> string" where
  \<comment> \<open>\<open>None\<close> is an absent argument (\<open>undefined\<close> or \<open>null\<close>); \<open>!text\<close> also holds for \<open>''\<close>.\<close>
  "prepareText w text =
     (case text of
        None \<Rightarrow> []
      | Some t \<Rightarrow> if t = [] then [] else limitLength (cleanUp (stripMarkup w t)))"

section \<open>The voice selection policy (\<open>SpeechManager.loadVoices\<close>)\<close>

definition toLowerCase :: "string \<Rightarrow> string" where
  \<comment> \<open>\<open>String.prototype.toLowerCase\<close> on the code units below 256: the letters A to Z
      and the accented capitals 0xC0 to 0xDE (0xD7 is the multiplication sign).\<close>
  "toLowerCase s =
     map (\<lambda>c. if (CHR ''A'' \<le> c \<and> c \<le> CHR ''Z'') \<or> (CHR 0xC0 \<le> c \<and> c \<le> CHR 0xDE \<and> c \<noteq> CHR 0xD7)
              then char_of (of_char c + (32::nat)) else c) s"

fun includesStr :: "string \<Rightarrow> string \<Rightarrow> bool" where
  \<comment> \<open>\<open>String.prototype.includes\<close>\<close>
  "includesStr [] sub = (sub = [])"
| "includesStr (c # cs) sub = (stripPrefix sub (c # cs) \<noteq> None \<or> includesStr cs sub)"

definition isEnglish :: "voice \<Rightarrow> bool" where
  \<comment> \<open>\<open>voice.lang.startsWith('en-') || voice.lang === 'en'\<close>\<close>
  "isEnglish v = (stripPrefix ''en-'' (lang v) \<noteq> None \<or> lang v = ''en'')"

definition isFemale :: "voice \<Rightarrow> bool" where
  \<comment> \<open>the predicate given to \<open>englishVoices.find\<close>\<close>
  "isFemale v =
     (includesStr (toLowerCase (name v)) ''female''
      \<or> includesStr (toLowerCase (name v)) ''woman''
      \<or> includesStr (toLowerCase (name v)) ''samantha''
      \<or> includesStr (toLowerCase (name v)) ''karen''
      \<or> includesStr (toLowerCase (name v)) ''victoria'')"

definition loadVoicesFrom :: "engine \<Rightarrow> manager \<Rightarrow> manager" where
  \<comment> \<open>the body of \<open>loadVoices\<close>, with the engine \<open>this.synth\<close> in hand\<close>
  "loadVoicesFrom e s =
     (let vs = catalog e;
          englishVoices = filter isEnglish vs;
          chosen =
            (case englishVoices of
               first # _ \<Rightarrow>
                 (case find isFemale englishVoices of
                    Some femaleVoice \<Rightarrow> Some femaleVoice
                  | None \<Rightarrow> Some first)
             | [] \<Rightarrow>
                 (case vs of
                    v # _ \<Rightarrow> Some v
                  | [] \<Rightarrow> voice (settings s)))
      in s\<lparr>voices := vs,
           settings := (settings s)\<lparr>voice := chosen\<rparr>,
           trace := trace s @ [EngineGetVoices, ConsoleLogVoices (length vs) (map_option name chosen)]\<rparr>)"

definition loadVoices :: "manager \<Rightarrow> manager option" where
  \<comment> \<open>\<open>None\<close>: \<open>this.synth.getVoices()\<close> throws a TypeError when \<open>this.synth\<close> is undefined.\<close>
  "loadVoices s = (case synth s of None \<Rightarrow> None | Some e \<Rightarrow> Some (loadVoicesFrom e s))"

definition voicePolicy_spec :: "voice list \<Rightarrow> voice option" where
  \<comment> \<open>The policy in the words of the specification: among English voices the first whose
      name contains one of the listed substrings, case-insensitively; else the first
      English voice; else the first voice of the catalog; else none.\<close>
  "voicePolicy_spec cat =
     (case [v \<leftarrow> cat. (lang v = ''en'' \<or> take 3 (lang v) = ''en-'')
                      \<and> (\<exists>k \<in> set [''female'', ''woman'', ''samantha'', ''karen'', ''victoria''].
                            includesStr (toLowerCase (name v)) k)] of
        f # _ \<Rightarrow> Some f
      | [] \<Rightarrow>
          (case [v \<leftarrow> cat. lang v = ''en'' \<or> take 3 (lang v) = ''en-''] of
             e # _ \<Rightarrow> Some e
           | [] \<Rightarrow> (case cat of v # _ \<Rightarrow> Some v | [] \<Rightarrow> None)))"

section \<open>The speech session controller (\<open>SpeechManager\<close>)\<close>

subsection \<open>The hooks\<close>

definition onSpeechStart :: "manager \<Rightarrow> manager" where
  "onSpeechStart s = s\<lparr>trace := trace s @ [ShowSpeaking]\<rparr>"

definition onSpeechEnd :: "manager \<Rightarrow> manager" where
  "onSpeechEnd s = s\<lparr>trace := trace s @ [ShowStopped]\<rparr>"

definition onSpeechPause :: "manager \<Rightarrow> manager" where
  "onSpeechPause s = s\<lparr>trace := trace s @ [ShowPaused]\<rparr>"

definition onSpeechResume :: "manager \<Rightarrow> manager" where
  "onSpeechResume s = s\<lparr>trace := trace s @ [ShowResumed]\<rparr>"

definition onSpeechError :: "window \<Rightarrow> string \<Rightarrow> manager \<Rightarrow> manager" where
  "onSpeechError w err s =
     s\<lparr>trace := trace s @ [ConsoleError ''Speech synthesis error:'' err]
          @ (if notificationManager w
             then [Notification ''Speech playback failed. Please try again.'' ''warning'' 3000]
             else [])\<rparr>"

subsection \<open>The handlers that \<open>speak\<close> installs on an utterance\<close>

definition onstart :: "manager \<Rightarrow> manager" where
  "onstart s = onSpeechStart (s\<lparr>trace := trace s @ [ConsoleLog ''Speech started'']\<rparr>)"

definition onend :: "manager \<Rightarrow> manager" where
  "onend s =
     (onSpeechEnd (s\<lparr>trace := trace s @ [ConsoleLog ''Speech ended'']\<rparr>))\<lparr>currentUtterance := None\<rparr>"

definition onerror :: "window \<Rightarrow> string \<Rightarrow> manager \<Rightarrow> manager" where
  "onerror w err s =
     (onSpeechError w err (s\<lparr>trace := trace s @ [ConsoleError ''Speech error:'' err]\<rparr>))
       \<lparr>currentUtterance := None\<rparr>"

definition onpause :: "manager \<Rightarrow> manager" where
  "onpause s = onSpeechPause (s\<lparr>trace := trace s @ [ConsoleLog ''Speech paused'']\<rparr>)"

definition onresume :: "manager \<Rightarrow> manager" where
  "onresume s = onSpeechResume (s\<lparr>trace := trace s @ [ConsoleLog ''Speech resumed'']\<rparr>)"

subsection \<open>The engine's side of each call\<close>

text \<open>
  How the engine answers the calls of the source, after the Web Speech API:
  \<open>cancel()\<close> removes every utterance and ends the speaking, leaving the paused flag as it is;
  \<open>speak(u)\<close> appends the utterance, or throws; \<open>pause()\<close> and \<open>resume()\<close> set and clear the
  paused flag, and the utterance being spoken is told so, which runs its \<open>onpause\<close> or
  \<open>onresume\<close> handler; these two notifications are modelled as arriving with the call.
  An utterance removed by \<open>cancel()\<close> is told later, with an \<open>error\<close> event (\<open>interrupted\<close> or
  \<open>canceled\<close>) or, in some engines, an \<open>end\<close> event: \<open>cancel()\<close> moves the queue to \<open>dropped\<close>, and
  the notification is an event of its own (\<open>cancelledUtteranceEnded\<close>, \<open>cancelledUtteranceFailed\<close>
  below), which may come at any later time or never.
\<close>

definition engineCancel :: "engine \<Rightarrow> manager \<Rightarrow> manager" where
  "engineCancel e s =
     s\<lparr>synth := Some (e\<lparr>speaking := False, queue := [], dropped := dropped e @ queue e\<rparr>),
       trace := trace s @ [EngineCancel]\<rparr>"

definition enginePause :: "engine \<Rightarrow> manager \<Rightarrow> manager" where
  "enginePause e s =
     (let s1 = s\<lparr>synth := Some (e\<lparr>paused := True\<rparr>), trace := trace s @ [EnginePause]\<rparr>
      in if speaking e then onpause s1 else s1)"

definition engineResume :: "engine \<Rightarrow> manager \<Rightarrow> manager" where
  "engineResume e s =
     (let s1 = s\<lparr>synth := Some (e\<lparr>paused := False\<rparr>), trace := trace s @ [EngineResume]\<rparr>
      in if speaking e then onresume s1 else s1)"

subsection \<open>The operations\<close>

definition stop :: "manager \<Rightarrow> manager" where
  "stop s =
     onSpeechEnd
       ((case synth s of Some e \<Rightarrow> engineCancel e s | None \<Rightarrow> s)\<lparr>currentUtterance := None\<rparr>)"

definition orDefault :: "real option \<Rightarrow> real \<Rightarrow> real" where
  \<comment> \<open>\<open>options.x || this.settings.x\<close> on a number: an absent property and the number 0 are
      falsy.\<close>
  "orDefault x d = (case x of None \<Rightarrow> d | Some v \<Rightarrow> if v = 0 then d else v)"

definition orDefaultVoice :: "voice option option \<Rightarrow> voice option \<Rightarrow> voice option" where
  \<comment> \<open>\<open>options.voice || this.settings.voice\<close>: an absent property and \<open>null\<close> are falsy.\<close>
  "orDefaultVoice x d = (case x of Some (Some v) \<Rightarrow> Some v | _ \<Rightarrow> d)"

definition makeUtterance :: "string \<Rightarrow> options \<Rightarrow> settings \<Rightarrow> utterance" where
  \<comment> \<open>\<open>new SpeechSynthesisUtterance(cleanText)\<close> and the four assignments\<close>
  "makeUtterance cleanText opts st =
     \<lparr>rate = orDefault (opt_rate opts) (rate st),
      pitch = orDefault (opt_pitch opts) (pitch st),
      volume = orDefault (opt_volume opts) (volume st),
      voice = orDefaultVoice (opt_voice opts) (voice st),
      utterance_text = cleanText\<rparr>"

definition startSpeaking :: "engine \<Rightarrow> utterance \<Rightarrow> manager \<Rightarrow> manager" where
  \<comment> \<open>\<open>try { this.synth.speak(utterance) } catch (error) { ... }\<close>\<close>
  "startSpeaking e u s =
     (if accepts e
      then s\<lparr>synth := Some (e\<lparr>queue := queue e @ [u]\<rparr>), trace := trace s @ [EngineSpeak u]\<rparr>
      else s\<lparr>currentUtterance := None,
             trace := trace s @ [EngineSpeak u, ConsoleError ''Failed to start speech:'' ''error'']\<rparr>)"

definition speak :: "window \<Rightarrow> string option \<Rightarrow> options \<Rightarrow> manager \<Rightarrow> manager" where
  "speak w txt opts s =
     (case synth s of
        None \<Rightarrow> s\<lparr>trace := trace s @ [ConsoleWarn ''Speech synthesis not available'']\<rparr>
      | Some _ \<Rightarrow>
          (let s1 = stop s; cleanText = prepareText w txt
           in if trim cleanText = [] then s1\<lparr>trace := trace s1 @ [ConsoleWarn ''No text to speak'']\<rparr>
              else
                (let utterance = makeUtterance cleanText opts (settings s1);
                     s2 = s1\<lparr>currentUtterance := Some utterance\<rparr>
                 in case synth s2 of
                      Some e \<Rightarrow> startSpeaking e utterance s2
                    | None \<Rightarrow> s2)))"

definition pause :: "manager \<Rightarrow> manager" where
  "pause s =
     (case synth s of
        Some e \<Rightarrow> if speaking e \<and> \<not> paused e then enginePause e s else s
      | None \<Rightarrow> s)"

definition resume :: "manager \<Rightarrow> manager" where
  "resume s =
     (case synth s of
        Some e \<Rightarrow> if paused e then engineResume e s else s
      | None \<Rightarrow> s)"

definition isSpeaking :: "manager \<Rightarrow> bool" where
  "isSpeaking s = (case synth s of Some e \<Rightarrow> speaking e | None \<Rightarrow> False)"

definition isPaused :: "manager \<Rightarrow> bool" where
  "isPaused s = (case synth s of Some e \<Rightarrow> paused e | None \<Rightarrow> False)"

definition getVoices :: "manager \<Rightarrow> voice list" where
  "getVoices s = voices s"

definition updateSettings :: "options \<Rightarrow> manager \<Rightarrow> manager" where
  \<comment> \<open>\<open>this.settings = { ...this.settings, ...newSettings }\<close>\<close>
  "updateSettings newSettings s =
     s\<lparr>settings :=
         \<lparr>rate = (case opt_rate newSettings of Some r \<Rightarrow> r | None \<Rightarrow> rate (settings s)),
          pitch = (case opt_pitch newSettings of Some p \<Rightarrow> p | None \<Rightarrow> pitch (settings s)),
          volume = (case opt_volume newSettings of Some v \<Rightarrow> v | None \<Rightarrow> volume (settings s)),
          voice = (case opt_voice newSettings of Some v \<Rightarrow> v | None \<Rightarrow> voice (settings s))\<rparr>\<rparr>"

definition getSettings :: "manager \<Rightarrow> settings" where
  "getSettings s = settings s"

subsection \<open>Construction\<close>

definition init :: "manager \<Rightarrow> manager" where
  \<comment> \<open>The two listeners that \<open>init\<close> registers are \<open>documentClick\<close> and \<open>voicesChanged\<close> below.\<close>
  "init s =
     (case synth s of
        None \<Rightarrow> s\<lparr>trace := trace s @ [ConsoleWarn ''Speech synthesis not supported in this browser'']\<rparr>
      | Some e \<Rightarrow> loadVoicesFrom e s)"

definition SpeechManager :: "window \<Rightarrow> manager" where
  \<comment> \<open>the constructor\<close>
  "SpeechManager w =
     init \<lparr>synth = speechSynthesis w, voices = [], currentUtterance = None, isInitialized = False,
           settings = \<lparr>rate = 9 / 10, pitch = 1, volume = 8 / 10, voice = None\<rparr>, trace = []\<rparr>"

definition documentClick :: "manager \<Rightarrow> manager" where
  \<comment> \<open>the click listener; it is registered only when the engine exists\<close>
  "documentClick s =
     (case synth s of
        None \<Rightarrow> s
      | Some e \<Rightarrow> if \<not> isInitialized s then (loadVoicesFrom e s)\<lparr>isInitialized := True\<rparr> else s)"

definition voicesChanged :: "voice list \<Rightarrow> manager \<Rightarrow> manager" where
  \<comment> \<open>the engine has a new catalog and calls \<open>onvoiceschanged\<close>\<close>
  "voicesChanged cat s =
     (case synth s of
        None \<Rightarrow> s
      | Some e \<Rightarrow> loadVoicesFrom (e\<lparr>catalog := cat\<rparr>) (s\<lparr>synth := Some (e\<lparr>catalog := cat\<rparr>)\<rparr>))"

subsection \<open>What the engine does on its own\<close>

text \<open>
  The engine starts the utterance at the head of its queue when it is neither speaking
  nor paused, finishes the utterance it is speaking, or fails on the utterance at the
  head of its queue; each time it tells the utterance, which runs the handler that
  \<open>speak\<close> installed.
\<close>

definition utteranceStarted :: "manager \<Rightarrow> manager" where
  "utteranceStarted s =
     (case synth s of
        None \<Rightarrow> s
      | Some e \<Rightarrow>
          (case queue e of
             [] \<Rightarrow> s
           | u # _ \<Rightarrow>
               if \<not> speaking e \<and> \<not> paused e
               then onstart (s\<lparr>synth := Some (e\<lparr>speaking := True\<rparr>)\<rparr>) else s))"

definition utteranceEnded :: "manager \<Rightarrow> manager" where
  "utteranceEnded s =
     (case synth s of
        None \<Rightarrow> s
      | Some e \<Rightarrow>
          (case queue e of
             [] \<Rightarrow> s
           | u # us \<Rightarrow>
               if speaking e
               then onend (s\<lparr>synth := Some (e\<lparr>speaking := False, queue := us\<rparr>)\<rparr>) else s))"

definition utteranceFailed :: "window \<Rightarrow> string \<Rightarrow> manager \<Rightarrow> manager" where
  "utteranceFailed w err s =
     (case synth s of
        None \<Rightarrow> s
      | Some e \<Rightarrow>
          (case queue e of
             [] \<Rightarrow> s
           | u # us \<Rightarrow> onerror w err (s\<lparr>synth := Some (e\<lparr>speaking := False, queue := us\<rparr>)\<rparr>)))"

text \<open>
  The engine tells an utterance that \<open>cancel()\<close> removed that it ended, or that it failed. The
  handlers are the ones \<open>speak\<close> installed on that utterance; they are closures over the
  controller and do not look at which utterance they belong to.
\<close>

definition cancelledUtteranceEnded :: "manager \<Rightarrow> manager" where
  "cancelledUtteranceEnded s =
     (case synth s of
        None \<Rightarrow> s
      | Some e \<Rightarrow>
          (case dropped e of
             [] \<Rightarrow> s
           | u # us \<Rightarrow> onend (s\<lparr>synth := Some (e\<lparr>dropped := us\<rparr>)\<rparr>)))"

definition cancelledUtteranceFailed :: "window \<Rightarrow> string \<Rightarrow> manager \<Rightarrow> manager" where
  "cancelledUtteranceFailed w err s =
     (case synth s of
        None \<Rightarrow> s
      | Some e \<Rightarrow>
          (case dropped e of
             [] \<Rightarrow> s
           | u # us \<Rightarrow> onerror w err (s\<lparr>synth := Some (e\<lparr>dropped := us\<rparr>)\<rparr>)))"

subsection \<open>Sequences of operations\<close>

datatype operation =
    Speak "string option" options
  | Stop
  | Pause
  | Resume
  | LoadVoices
  | UpdateSettings options
  | DocumentClick
  | VoicesChanged "voice list"
  | UtteranceStarted
  | UtteranceEnded
  | UtteranceFailed string
  | CancelledUtteranceEnded
  | CancelledUtteranceFailed string

fun step :: "window \<Rightarrow> operation \<Rightarrow> manager \<Rightarrow> manager" where
  "step w (Speak txt opts) s = speak w txt opts s"
| "step w Stop s = stop s"
| "step w Pause s = pause s"
| "step w Resume s = resume s"
| "step w LoadVoices s = (case loadVoices s of Some s' \<Rightarrow> s' | None \<Rightarrow> s)"
| "step w (UpdateSettings newSettings) s = updateSettings newSettings s"
| "step w DocumentClick s = documentClick s"
| "step w (VoicesChanged cat) s = voicesChanged cat s"
| "step w UtteranceStarted s = utteranceStarted s"
| "step w UtteranceEnded s = utteranceEnded s"
| "step w (UtteranceFailed err) s = utteranceFailed w err s"
| "step w CancelledUtteranceEnded s = cancelledUtteranceEnded s"
| "step w (CancelledUtteranceFailed err) s = cancelledUtteranceFailed w err s"

fun run :: "window \<Rightarrow> operation list \<Rightarrow> manager \<Rightarrow> manager" where
  "run w [] s = s"
| "run w (op # ops) s = run w ops (step w op s)"

definition engineHolds :: "manager \<Rightarrow> utterance list" where
  \<comment> \<open>the utterances the engine has been given and has neither finished nor dropped\<close>
  "engineHolds s = (case synth s of Some e \<Rightarrow> queue e | None \<Rightarrow> [])"

definition engineDropped :: "manager \<Rightarrow> utterance list" where
  \<comment> \<open>the utterances that \<open>cancel()\<close> removed and that have not been told yet\<close>
  "engineDropped s = (case synth s of Some e \<Rightarrow> dropped e | None \<Rightarrow> [])"




definition noOptions :: options where
  \<comment> \<open>the default \<open>options = {}\<close>\<close>
  "noOptions = \<lparr>opt_rate = None, opt_pitch = None, opt_volume = None, opt_voice = None\<rparr>"

subsection \<open>Pages used in the examples\<close>

definition idleEngine :: "voice list \<Rightarrow> engine" where
  "idleEngine cat =
     \<lparr>speaking = False, paused = False, queue = [], dropped = [], catalog = cat, accepts = True\<rparr>"

definition plainPage :: "voice list \<Rightarrow> window" where
  \<comment> \<open>A page with an engine, for text without markup (no \<open><\<close>, no \<open>&\<close>): the text content
      of the parsed fragment is then the text itself.\<close>
  "plainPage cat =
     \<lparr>speechSynthesis = Some (idleEngine cat), textContent = (\<lambda>t. t), innerText = (\<lambda>t. t),
      notificationManager = True\<rparr>"

definition silentPage :: window where
  \<comment> \<open>the same page in a browser without speech synthesis\<close>
  "silentPage =
     \<lparr>speechSynthesis = None, textContent = (\<lambda>t. t), innerText = (\<lambda>t. t),
      notificationManager = True\<rparr>"

section \<open>Properties of the text normalizer\<close>

lemmas cls = isSpace_def isNewline_def isDigit_def isWord_def isPunct_def wordBoundary_def

lemmas norm_defs = prepareText_def stripMarkup_def cleanUp_def beforeNumbers_def limitLength_def
  trim_def matchUrl_def spellOut_def numberAt_def truncationNotice_def

subsection \<open>The number step\<close>

lemma spellOut_Cons2: "spellOut (c # d # ds) = c # CHR '' '' # spellOut (d # ds)"
  by (simp add: spellOut_def)

lemma spellOut_single: "spellOut [c] = [c]"
  by (simp add: spellOut_def)

lemma spellOut_length: "ds \<noteq> [] \<Longrightarrow> length (spellOut ds) = 2 * length ds - 1"
proof (induction ds rule: induct_list012)
  case (3 c d ds)
  then show ?case by (simp add: spellOut_Cons2)
qed (simp_all add: spellOut_single)

lemma spellOut_even: "i < length ds \<Longrightarrow> spellOut ds ! (2 * i) = ds ! i"
proof (induction ds arbitrary: i rule: induct_list012)
  case (3 c d ds)
  then show ?case by (cases i) (simp_all add: spellOut_Cons2)
qed (simp_all add: spellOut_single)

lemma spellOut_odd: "Suc i < length ds \<Longrightarrow> spellOut ds ! (2 * i + 1) = CHR '' ''"
proof (induction ds arbitrary: i rule: induct_list012)
  case (3 c d ds)
  then show ?case by (cases i) (simp_all add: spellOut_Cons2)
qed simp_all

lemma isDigit_isWord: "isDigit c \<Longrightarrow> isWord c"
  by (simp add: isWord_def)

lemma takeWhile_digits_open:
  assumes "s \<noteq> []" "\<not> isWord (last s)"
  shows "takeWhile isDigit (s @ t) = takeWhile isDigit s"
    and "dropWhile isDigit (s @ t) = dropWhile isDigit s @ t"
    and "dropWhile isDigit s \<noteq> []"
    and "last (dropWhile isDigit s) = last s"
proof -
  have nd: "\<not> isDigit (last s)" using assms(2) isDigit_isWord by blast
  have mem: "last s \<in> set s" using assms(1) by simp
  show "takeWhile isDigit (s @ t) = takeWhile isDigit s"
    using nd mem by (meson takeWhile_append1)
  show "dropWhile isDigit (s @ t) = dropWhile isDigit s @ t"
    using nd mem by (meson dropWhile_append1)
  show ne: "dropWhile isDigit s \<noteq> []"
    using nd mem by (metis dropWhile_eq_Nil_conv)
  show "last (dropWhile isDigit s) = last s"
    using ne by (metis last_appendR takeWhile_dropWhile_id)
qed

lemma numberAt_append:
  assumes "s \<noteq> []" "\<not> isWord (last s)"
  shows "numberAt prev (s @ t) = numberAt prev s"
proof -
  note opn = takeWhile_digits_open [OF assms]
  have "startsWith isWord (dropWhile isDigit s @ t) = startsWith isWord (dropWhile isDigit s)"
    using opn(3) by (cases "dropWhile isDigit s") auto
  moreover have "startsWith isWord (s @ t) = startsWith isWord s"
    using assms(1) by (cases s) auto
  ultimately show ?thesis
    by (simp add: numberAt_def wordBoundary_def opn(1,2))
qed

lemma breakLongNumbers_append:
  "s \<noteq> [] \<Longrightarrow> \<not> isWord (last s) \<Longrightarrow>
     breakLongNumbers prev (s @ t) = breakLongNumbers prev s @ breakLongNumbers False t"
proof (induction prev s rule: breakLongNumbers.induct)
  case (1 prev)
  then show ?case by simp
next
  case (2 prev c cs)
  let ?s = "c # cs"
  note opn = takeWhile_digits_open [OF "2.prems"]
  note na = numberAt_append [OF "2.prems", of prev t]
  show ?case
  proof (cases "numberAt prev ?s")
    case True
    have ih: "breakLongNumbers True (dropWhile isDigit ?s @ t)
        = breakLongNumbers True (dropWhile isDigit ?s) @ breakLongNumbers False t"
      using "2.IH"(1) [OF True opn(3)] opn(4) "2.prems"(2) by simp
    have "breakLongNumbers prev (?s @ t)
        = spellOut (takeWhile isDigit (?s @ t)) @ breakLongNumbers True (dropWhile isDigit (?s @ t))"
      using True na by (simp del: takeWhile.simps dropWhile.simps)
    also have "\<dots> = spellOut (takeWhile isDigit ?s) @ breakLongNumbers True (dropWhile isDigit ?s @ t)"
      using opn(1,2) by simp
    also have "\<dots> = breakLongNumbers prev ?s @ breakLongNumbers False t"
      using True ih by (simp del: takeWhile.simps dropWhile.simps)
    finally show ?thesis .
  next
    case False
    have l: "breakLongNumbers prev (?s @ t) = c # breakLongNumbers (isWord c) (cs @ t)"
      using False na by simp
    have r: "breakLongNumbers prev ?s = c # breakLongNumbers (isWord c) cs"
      using False by simp
    show ?thesis
    proof (cases "cs = []")
      case True
      then show ?thesis using l r "2.prems"(2) by simp
    next
      case ne: False
      then have "breakLongNumbers (isWord c) (cs @ t)
         = breakLongNumbers (isWord c) cs @ breakLongNumbers False t"
        using "2.IH"(2) [OF False] "2.prems"(2) by simp
      then show ?thesis using l r by simp
    qed
  qed
qed

lemma breakLongNumbers_at_run:
  assumes "\<forall>c \<in> set ds. isDigit c" "4 \<le> length ds" "\<not> startsWith isWord post"
  shows "breakLongNumbers False (ds @ post) = spellOut ds @ breakLongNumbers True post"
proof -
  obtain d ds' where ds: "ds = d # ds'" using assms(2) by (cases ds) auto
  have nd: "\<not> startsWith isDigit post"
    using assms(3) isDigit_isWord by (cases post) auto
  have tw: "takeWhile isDigit (ds @ post) = ds"
    using assms(1) nd by (cases post) (simp_all add: takeWhile_append2 takeWhile_eq_all_conv[THEN iffD2])
  have dw: "dropWhile isDigit (ds @ post) = post"
    using assms(1) nd by (cases post) (simp_all add: dropWhile_append2)
  have "isWord d" using assms(1) ds isDigit_isWord by simp
  then have b: "wordBoundary False (ds @ post)" by (simp add: ds wordBoundary_def)
  have e: "wordBoundary True post" using assms(3) by (simp add: wordBoundary_def)
  have "numberAt False (ds @ post)"
    using tw dw b e assms(2) by (simp add: numberAt_def)
  then show ?thesis
    using tw dw unfolding ds
    by (simp del: takeWhile.simps dropWhile.simps takeWhile_append dropWhile_append)
qed

text \<open>
  C4, as stated, fails: the expression is \<open>\b\d{4,}\b\<close>, so a run of digits that touches a
  letter or an underscore is not matched. In \<open>x123456\<close> the six digits follow a letter, and
  the normalizer returns the text unchanged, with no space between the digits.
\<close>

theorem prepareText_digits_after_letter:
  "prepareText (plainPage []) (Some ''x123456'') = ''x123456''"
  by (simp add: norm_defs plainPage_def cls)

text \<open>
  C4, amended: let the text that reaches the number step contain a run \<open>ds\<close> of at least four
  digits with a word boundary on each side (the run is at the start of the text or follows a
  character that is no letter, digit or underscore, and it is at the end of the text or is
  followed by such a character). Then the step replaces the run by its digits separated by
  single spaces, and the normalizer returns the text so changed, trimmed and limited in
  length. The replacement of a run of \<open>n\<close> digits has \<open>2 n - 1\<close> characters: the digits at the
  even positions, a space at every odd position. This holds for runs of six digits in
  particular.
\<close>

theorem prepareText_spells_out_numbers:
  assumes "txt \<noteq> []"
    and "beforeNumbers (stripMarkup w txt) = pre @ ds @ post"
    and "\<forall>c \<in> set ds. isDigit c" and "4 \<le> length ds"
    and "pre = [] \<or> \<not> isWord (last pre)"
    and "post = [] \<or> \<not> isWord (hd post)"
  shows "prepareText w (Some txt)
           = limitLength (trim (breakLongNumbers False pre @ spellOut ds @ breakLongNumbers True post))
         \<and> length (spellOut ds) = 2 * length ds - 1
         \<and> (\<forall>i < length ds. spellOut ds ! (2 * i) = ds ! i)
         \<and> (\<forall>i. Suc i < length ds \<longrightarrow> spellOut ds ! (2 * i + 1) = CHR '' '')"
proof -
  have post: "\<not> startsWith isWord post" using assms(6) by (cases post) auto
  have run: "breakLongNumbers False (ds @ post) = spellOut ds @ breakLongNumbers True post"
    using assms(3,4) post by (rule breakLongNumbers_at_run)
  have "breakLongNumbers False (pre @ ds @ post)
      = breakLongNumbers False pre @ spellOut ds @ breakLongNumbers True post"
  proof (cases "pre = []")
    case True
    then show ?thesis using run by simp
  next
    case False
    then have "\<not> isWord (last pre)" using assms(5) by simp
    from breakLongNumbers_append [OF False this] run show ?thesis by simp
  qed
  then have "prepareText w (Some txt)
      = limitLength (trim (breakLongNumbers False pre @ spellOut ds @ breakLongNumbers True post))"
    using assms(1,2) by (simp add: prepareText_def cleanUp_def)
  moreover have "ds \<noteq> []" using assms(4) by auto
  ultimately show ?thesis
    using spellOut_length spellOut_even spellOut_odd by simp
qed

text \<open>The six digits of \<open>Call 123456 now\<close> stand between two spaces and are spelled out.\<close>

theorem prepareText_spells_out_numbers_witness:
  "prepareText (plainPage []) (Some ''Call 123456 now'') = ''Call 1 2 3 4 5 6 now''"
proof -
  have "beforeNumbers (stripMarkup (plainPage []) ''Call 123456 now'')
      = ''Call '' @ ''123456'' @ '' now''"
    by (simp add: norm_defs plainPage_def cls)
  from prepareText_spells_out_numbers [OF _ this] show ?thesis
    by (simp add: norm_defs cls)
qed

subsection \<open>Line breaks\<close>

text \<open>
  C5: the claim is that every line break of the input comes out as sentence-ending
  punctuation. The source says so too (\<open>// Replace newlines with periods\<close>), but the step
  before it, \<open>.replace(/\s+/g, ' ')\<close>, has already turned every line break into a space, since
  \<open>\s\<close> contains \<open>\n\<close>; the newline step finds nothing to replace. The two lines \<open>a\<close> and \<open>b\<close>
  come out as \<open>a b\<close>, not as \<open>a. b\<close>.
\<close>

theorem prepareText_line_break_becomes_space:
  "prepareText (plainPage []) (Some ''a\<newline>b'') = ''a b''"
  by (simp add: norm_defs plainPage_def cls)

subsection \<open>The length limit\<close>

lemma replaceWhitespace_replicate:
  "\<not> isSpace x \<Longrightarrow> replaceWhitespace (replicate n x) = replicate n x"
  by (induction n) simp_all

lemma replaceNewlines_replicate:
  "\<not> isNewline x \<Longrightarrow> replaceNewlines (replicate n x) = replicate n x"
  by (induction n) simp_all

lemma replaceDuplicatePunctuation_replicate:
  "\<not> isPunct x \<Longrightarrow> replaceDuplicatePunctuation (replicate n x) = replicate n x"
  by (induction n) simp_all

lemma replaceUrls_replicate:
  "x \<noteq> CHR ''h'' \<Longrightarrow> replaceUrls prev (replicate n x) = replicate n x"
  by (induction n arbitrary: prev) (simp_all add: matchUrl_def)

lemma breakLongNumbers_replicate:
  "\<not> isDigit x \<Longrightarrow> breakLongNumbers prev (replicate n x) = replicate n x"
  by (induction n arbitrary: prev) (simp_all add: numberAt_def)

lemma trim_replicate: "\<not> isSpace x \<Longrightarrow> trim (replicate n x) = replicate n x"
  by (simp add: trim_def dropWhile_replicate)

lemma cleanUp_letters: "cleanUp (replicate n (CHR ''a'')) = replicate n (CHR ''a'')"
  by (simp add: cleanUp_def beforeNumbers_def replaceWhitespace_replicate replaceNewlines_replicate
      replaceDuplicatePunctuation_replicate replaceUrls_replicate breakLongNumbers_replicate
      trim_replicate cls)

lemma replaceWhitespace_spaces: "replaceWhitespace (replicate (Suc n) (CHR '' '')) = '' ''"
  by (simp add: isSpace_def)

text \<open>
  C6, as stated, fails: the limit is applied to the cleaned text, not to the input. An input
  of 3001 spaces is longer than 3000 units, and the normalizer returns the empty string:
  nothing is truncated and no notice is appended.
\<close>

theorem prepareText_long_input_not_truncated:
  "3000 < length (replicate 3001 (CHR '' ''))
   \<and> prepareText (plainPage []) (Some (replicate 3001 (CHR '' ''))) = []"
proof -
  have "replicate 3001 (CHR '' '') = replicate (Suc 3000) (CHR '' '')" by simp
  then have "replaceWhitespace (replicate 3001 (CHR '' '')) = '' ''"
    using replaceWhitespace_spaces by metis
  moreover have "replicate 3001 (CHR '' '') \<noteq> []" by simp
  ultimately show ?thesis
    by (simp add: norm_defs plainPage_def cls)
qed

text \<open>
  C6, amended: for every input whose cleaned text (markup stripped, the five replacements
  done, trimmed) is longer than 3000 units, the normalizer returns exactly the first 3000
  units of the cleaned text followed by the notice \<open>... text truncated for speech.\<close>; an input
  whose cleaned text has at most 3000 units is returned as cleaned, without the notice; an
  absent or empty input gives the empty string.
\<close>

theorem prepareText_truncates_cleaned_text:
  "prepareText w None = [] \<and> prepareText w (Some []) = []
   \<and> (txt \<noteq> [] \<and> 3000 < length (cleanUp (stripMarkup w txt)) \<longrightarrow>
        prepareText w (Some txt)
          = take 3000 (cleanUp (stripMarkup w txt)) @ ''... text truncated for speech.''
        \<and> length (take 3000 (cleanUp (stripMarkup w txt))) = 3000)
   \<and> (txt \<noteq> [] \<and> length (cleanUp (stripMarkup w txt)) \<le> 3000 \<longrightarrow>
        prepareText w (Some txt) = cleanUp (stripMarkup w txt))"
  by (simp add: prepareText_def limitLength_def truncationNotice_def)

text \<open>A text of 3001 letters is cut to 3000 and gets the notice; \<open>abc\<close> comes back as it is.\<close>

theorem prepareText_truncates_cleaned_text_witness:
  "prepareText (plainPage []) (Some (replicate 3001 (CHR ''a'')))
     = replicate 3000 (CHR ''a'') @ ''... text truncated for speech.''
   \<and> prepareText (plainPage []) (Some ''abc'') = ''abc''"
proof -
  have a: "cleanUp (stripMarkup (plainPage []) (replicate 3001 (CHR ''a'')))
      = replicate 3001 (CHR ''a'')"
    by (simp add: stripMarkup_def plainPage_def cleanUp_letters)
  have b: "cleanUp (stripMarkup (plainPage []) ''abc'') = ''abc''"
    by (simp add: norm_defs plainPage_def cls)
  have c: "replicate 3001 (CHR ''a'') \<noteq> []" by simp
  from prepareText_truncates_cleaned_text [of "plainPage []" "replicate 3001 (CHR ''a'')"] a c
  have "prepareText (plainPage []) (Some (replicate 3001 (CHR ''a'')))
     = replicate 3000 (CHR ''a'') @ ''... text truncated for speech.''"
    by simp
  moreover from prepareText_truncates_cleaned_text [of "plainPage []" "''abc''"] b
  have "prepareText (plainPage []) (Some ''abc'') = ''abc''" by simp
  ultimately show ?thesis by simp
qed

text \<open>
  C10: for every input, absent and empty input included, the output of the normalizer has
  at most 3030 characters: 3000 and the 30 characters of the truncation notice.
\<close>

theorem prepareText_length_bound:
  "length (prepareText w txt) \<le> 3000 + length truncationNotice
   \<and> length truncationNotice = 30
   \<and> length (prepareText w txt) \<le> 3030"
  by (simp add: prepareText_def limitLength_def truncationNotice_def split: option.splits)

section \<open>Properties of the voice selection policy\<close>

lemma stripPrefix_take: "(stripPrefix p s \<noteq> None) = (take (length p) s = p)"
  by (induction p s rule: stripPrefix.induct) auto

lemma isEnglish_spec: "isEnglish v = (lang v = ''en'' \<or> take 3 (lang v) = ''en-'')"
proof -
  have "(stripPrefix ''en-'' (lang v) \<noteq> None) = (take 3 (lang v) = ''en-'')"
    using stripPrefix_take [of "''en-''" "lang v"] by (simp add: numeral_3_eq_3)
  then show ?thesis by (auto simp: isEnglish_def)
qed

lemma find_filter_hd: "find P xs = (case filter P xs of [] \<Rightarrow> None | x # _ \<Rightarrow> Some x)"
  by (induction xs) auto

lemma chosen_spec:
  "(case filter isEnglish cat of
      first # _ \<Rightarrow> (case find isFemale (filter isEnglish cat) of Some f \<Rightarrow> Some f | None \<Rightarrow> Some first)
    | [] \<Rightarrow> (case cat of v # _ \<Rightarrow> Some v | [] \<Rightarrow> prev))
   = (case voicePolicy_spec cat of Some v \<Rightarrow> Some v | None \<Rightarrow> prev)"
proof -
  define en where "en = filter isEnglish cat"
  define fe where "fe = filter isFemale en"
  have e: "[v \<leftarrow> cat. lang v = ''en'' \<or> take 3 (lang v) = ''en-''] = en"
    by (simp add: en_def isEnglish_spec [abs_def])
  have f: "[v \<leftarrow> cat. (lang v = ''en'' \<or> take 3 (lang v) = ''en-'')
                      \<and> (\<exists>k \<in> set [''female'', ''woman'', ''samantha'', ''karen'', ''victoria''].
                            includesStr (toLowerCase (name v)) k)]
      = fe"
    unfolding fe_def en_def filter_filter
    by (rule filter_cong) (auto simp: isEnglish_spec isFemale_def)
  have spec: "voicePolicy_spec cat
      = (case fe of f # _ \<Rightarrow> Some f
         | [] \<Rightarrow> (case en of e # _ \<Rightarrow> Some e | [] \<Rightarrow> (case cat of v # _ \<Rightarrow> Some v | [] \<Rightarrow> None)))"
    unfolding voicePolicy_spec_def e f ..
  have code: "(case filter isEnglish cat of
      first # _ \<Rightarrow> (case find isFemale (filter isEnglish cat) of Some f \<Rightarrow> Some f | None \<Rightarrow> Some first)
    | [] \<Rightarrow> (case cat of v # _ \<Rightarrow> Some v | [] \<Rightarrow> prev))
     = (case en of
          first # _ \<Rightarrow> (case fe of [] \<Rightarrow> Some first | f # _ \<Rightarrow> Some f)
        | [] \<Rightarrow> (case cat of v # _ \<Rightarrow> Some v | [] \<Rightarrow> prev))"
    unfolding find_filter_hd fe_def en_def by (simp split: list.splits)
  have "en = [] \<Longrightarrow> fe = []" by (simp add: fe_def)
  then show ?thesis
    unfolding spec code by (cases en; cases fe; cases cat) simp_all
qed

lemma samantha_chosen:
  "voicePolicy_spec
     [\<lparr>name = ''Microsoft David'', lang = ''en-US''\<rparr>, \<lparr>name = ''Samantha'', lang = ''en-US''\<rparr>]
   = Some \<lparr>name = ''Samantha'', lang = ''en-US''\<rparr>"
  by (simp add: voicePolicy_spec_def toLowerCase_def char_of_def bit_Suc_0_iff)

lemma synth_new: "synth (SpeechManager w) = speechSynthesis w"
  by (cases "speechSynthesis w") (simp_all add: SpeechManager_def init_def loadVoicesFrom_def Let_def)

text \<open>
  C7: run over any catalog, \<open>loadVoices\<close> keeps the catalog and sets the default voice by the
  policy of the specification: the first English voice (\<open>en\<close> or \<open>en-*\<close>) whose name contains
  one of \<open>female\<close>, \<open>woman\<close>, \<open>samantha\<close>, \<open>karen\<close>, \<open>victoria\<close> in any case; else the first English
  voice; else the first voice of the catalog; else the default voice is left as it was
  (unset, when it was unset). For the catalog of Microsoft David and Samantha, both
  \<open>en-US\<close>, it selects Samantha. The method needs the engine: without one the source throws.
\<close>

theorem loadVoices_follows_policy:
  assumes "synth s = Some e"
  shows "\<exists>s'. loadVoices s = Some s' \<and> voices s' = catalog e
     \<and> voice (settings s')
         = (case voicePolicy_spec (catalog e) of Some v \<Rightarrow> Some v | None \<Rightarrow> voice (settings s))
     \<and> (catalog e = [\<lparr>name = ''Microsoft David'', lang = ''en-US''\<rparr>,
                       \<lparr>name = ''Samantha'', lang = ''en-US''\<rparr>]
          \<longrightarrow> voice (settings s') = Some \<lparr>name = ''Samantha'', lang = ''en-US''\<rparr>)"
proof -
  have v: "voice (settings (loadVoicesFrom e s))
      = (case voicePolicy_spec (catalog e) of Some v \<Rightarrow> Some v | None \<Rightarrow> voice (settings s))"
    using chosen_spec [where cat = "catalog e" and prev = "voice (settings s)"]
    by (simp add: loadVoicesFrom_def Let_def)
  have "voices (loadVoicesFrom e s) = catalog e"
    by (simp add: loadVoicesFrom_def Let_def)
  with v assms samantha_chosen show ?thesis
    by (simp add: loadVoices_def)
qed

text \<open>On a page whose engine offers Microsoft David and Samantha, the choice is Samantha.\<close>

theorem loadVoices_follows_policy_witness:
  "map_option (\<lambda>s'. voice (settings s'))
     (loadVoices (SpeechManager (plainPage
        [\<lparr>name = ''Microsoft David'', lang = ''en-US''\<rparr>, \<lparr>name = ''Samantha'', lang = ''en-US''\<rparr>])))
   = Some (Some \<lparr>name = ''Samantha'', lang = ''en-US''\<rparr>)"
proof -
  let ?cat = "[\<lparr>name = ''Microsoft David'', lang = ''en-US''\<rparr>,
               \<lparr>name = ''Samantha'', lang = ''en-US''\<rparr>]"
  have "synth (SpeechManager (plainPage ?cat)) = Some (idleEngine ?cat)"
    by (simp add: synth_new plainPage_def)
  from loadVoices_follows_policy [OF this] obtain s' where
    l: "loadVoices (SpeechManager (plainPage ?cat)) = Some s'" and
    v: "catalog (idleEngine ?cat) = ?cat
          \<longrightarrow> voice (settings s') = Some \<lparr>name = ''Samantha'', lang = ''en-US''\<rparr>"
    by blast
  have "catalog (idleEngine ?cat) = ?cat" by (simp add: idleEngine_def)
  with v l show ?thesis by simp
qed

section \<open>Properties of the speech session controller\<close>

lemmas hook_defs = onSpeechStart_def onSpeechEnd_def onSpeechPause_def onSpeechResume_def
  onSpeechError_def onstart_def onend_def onerror_def onpause_def onresume_def

lemmas ctl_defs = stop_def speak_def pause_def resume_def engineCancel_def enginePause_def
  engineResume_def startSpeaking_def isSpeaking_def isPaused_def engineHolds_def
  engineDropped_def

lemmas page_defs = SpeechManager_def init_def loadVoicesFrom_def plainPage_def silentPage_def
  idleEngine_def noOptions_def makeUtterance_def orDefault_def orDefaultVoice_def

subsection \<open>One utterance at a time\<close>




















lemma first_speak:
  "speak (plainPage []) (Some ''first'') noOptions (SpeechManager (plainPage []))
   = \<lparr>synth = Some \<lparr>speaking = False, paused = False,
         queue = [\<lparr>rate = 9 / 10, pitch = 1, volume = 8 / 10, voice = None, utterance_text = ''first''\<rparr>],
         dropped = [], catalog = [], accepts = True\<rparr>,
      voices = [],
      currentUtterance = Some \<lparr>rate = 9 / 10, pitch = 1, volume = 8 / 10, voice = None, utterance_text = ''first''\<rparr>,
      isInitialized = False,
      settings = \<lparr>rate = 9 / 10, pitch = 1, volume = 8 / 10, voice = None\<rparr>,
      trace = [EngineGetVoices, ConsoleLogVoices 0 None, EngineCancel, ShowStopped,
        EngineSpeak \<lparr>rate = 9 / 10, pitch = 1, volume = 8 / 10, voice = None, utterance_text = ''first''\<rparr>]\<rparr>"
  by (simp add: norm_defs cls ctl_defs hook_defs page_defs Let_def)




subsection \<open>Nothing to say, or no engine\<close>

text \<open>
  C2, as stated, fails: with an engine present, \<open>speak\<close> calls \<open>stop()\<close>, and with it the engine's
  \<open>cancel()\<close>, before it looks at the text; and it only writes a warning to the console, the
  user is not notified. For the text of one space, which normalizes to the empty string,
  the engine is cancelled and no notification is shown.
\<close>

theorem speak_blank_cancels_engine:
  "prepareText (plainPage []) (Some '' '') = []
   \<and> trace (speak (plainPage []) (Some '' '') noOptions (SpeechManager (plainPage [])))
     = [EngineGetVoices, ConsoleLogVoices 0 None, EngineCancel, ShowStopped,
        ConsoleWarn ''No text to speak'']"
  by (simp add: norm_defs cls ctl_defs hook_defs page_defs Let_def)

text \<open>
  C2, amended: when the engine is unavailable, \<open>speak()\<close> writes a warning to the console and
  does nothing else: no engine call, no hook, no notification. When the engine is
  available and the normalized text is empty (blank after trimming), \<open>speak()\<close> does what
  \<open>stop()\<close> does, which cancels the engine and fires the \<open>speech ended\<close> hook, then writes a
  warning to the console and returns: no utterance is handed to the engine, none is
  current, and the user is not notified.
\<close>

theorem speak_nothing_to_say:
  "(synth s = None \<longrightarrow>
      speak w txt opts s = s\<lparr>trace := trace s @ [ConsoleWarn ''Speech synthesis not available'']\<rparr>)
   \<and> (synth s \<noteq> None \<and> trim (prepareText w txt) = [] \<longrightarrow>
        speak w txt opts s = (stop s)\<lparr>trace := trace (stop s) @ [ConsoleWarn ''No text to speak'']\<rparr>
        \<and> trace (speak w txt opts s)
            = trace s @ [EngineCancel, ShowStopped, ConsoleWarn ''No text to speak'']
        \<and> engineHolds (speak w txt opts s) = []
        \<and> currentUtterance (speak w txt opts s) = None)"
  by (cases "synth s") (auto simp: ctl_defs hook_defs Let_def)

text \<open>
  Without an engine only the two warnings are written; with an engine and no text the
  engine is cancelled and nothing is spoken.
\<close>

theorem speak_nothing_to_say_witness:
  "trace (speak silentPage (Some ''hello'') noOptions (SpeechManager silentPage))
     = [ConsoleWarn ''Speech synthesis not supported in this browser'',
        ConsoleWarn ''Speech synthesis not available'']
   \<and> trace (speak (plainPage []) None noOptions (SpeechManager (plainPage [])))
     = [EngineGetVoices, ConsoleLogVoices 0 None, EngineCancel, ShowStopped,
        ConsoleWarn ''No text to speak'']
   \<and> engineHolds (speak (plainPage []) None noOptions (SpeechManager (plainPage []))) = []"
proof -
  have a: "synth (SpeechManager silentPage) = None"
    by (simp add: synth_new silentPage_def)
  have b: "synth (SpeechManager (plainPage [])) \<noteq> None
      \<and> trim (prepareText (plainPage []) None) = []"
    by (simp add: synth_new plainPage_def prepareText_def trim_def)
  have c: "trace (SpeechManager silentPage)
      = [ConsoleWarn ''Speech synthesis not supported in this browser'']"
    by (simp add: page_defs)
  have d: "trace (SpeechManager (plainPage [])) = [EngineGetVoices, ConsoleLogVoices 0 None]"
    by (simp add: page_defs Let_def)
  from speak_nothing_to_say [of "SpeechManager silentPage" silentPage "Some ''hello''" noOptions] a
  have "speak silentPage (Some ''hello'') noOptions (SpeechManager silentPage)
     = (SpeechManager silentPage)\<lparr>trace := trace (SpeechManager silentPage)
          @ [ConsoleWarn ''Speech synthesis not available'']\<rparr>"
    by blast
  then have "trace (speak silentPage (Some ''hello'') noOptions (SpeechManager silentPage))
     = [ConsoleWarn ''Speech synthesis not supported in this browser'',
        ConsoleWarn ''Speech synthesis not available'']"
    by (simp add: c)
  moreover
  from speak_nothing_to_say [of "SpeechManager (plainPage [])" "plainPage []" None noOptions] b
  have "trace (speak (plainPage []) None noOptions (SpeechManager (plainPage [])))
     = trace (SpeechManager (plainPage []))
         @ [EngineCancel, ShowStopped, ConsoleWarn ''No text to speak'']
     \<and> engineHolds (speak (plainPage []) None noOptions (SpeechManager (plainPage []))) = []"
    by blast
  then have "trace (speak (plainPage []) None noOptions (SpeechManager (plainPage [])))
     = [EngineGetVoices, ConsoleLogVoices 0 None, EngineCancel, ShowStopped,
        ConsoleWarn ''No text to speak'']
     \<and> engineHolds (speak (plainPage []) None noOptions (SpeechManager (plainPage []))) = []"
    by (simp add: d)
  ultimately show ?thesis by simp
qed

subsection \<open>Options and settings\<close>

text \<open>
  C3: the claim is that a field given in the options wins over the settings, the value 0
  included. The source merges with \<open>options.volume || this.settings.volume\<close>, and \<open>||\<close> takes 0
  for absent, whereas \<open>updateSettings\<close> merges the same kind of object by presence. A call
  with \<open>{ volume: 0 }\<close> under the initial settings builds an utterance of volume 0.8.
\<close>

theorem speak_ignores_volume_zero:
  "map_option volume
     (currentUtterance
        (speak (plainPage []) (Some ''hi'')
           \<lparr>opt_rate = None, opt_pitch = None, opt_volume = Some 0, opt_voice = None\<rparr>
           (SpeechManager (plainPage []))))
   = Some (8 / 10)"
  by (simp add: norm_defs cls ctl_defs hook_defs page_defs Let_def)

subsection \<open>Pausing and resuming\<close>

text \<open>
  C9: the source keeps no state variable; the states are read off its own queries. Speaking
  is \<open>isSpeaking()\<close> and not \<open>isPaused()\<close>, Paused is \<open>isPaused()\<close>, which is the guard of
  \<open>resume()\<close>. Then \<open>pause()\<close> changes nothing unless the state is Speaking, in particular
  nothing when the session is idle, and \<open>resume()\<close> changes nothing unless the state is Paused.
  In the state Speaking, \<open>pause()\<close> calls the engine's \<open>pause()\<close>, the session is Paused
  afterwards, and the pause hook fires.
\<close>

theorem pause_resume_guards:
  "(\<not> (isSpeaking s \<and> \<not> isPaused s) \<longrightarrow> pause s = s)
   \<and> (\<not> isPaused s \<longrightarrow> resume s = s)
   \<and> (isSpeaking s \<and> \<not> isPaused s \<longrightarrow>
        isPaused (pause s) \<and> isSpeaking (pause s)
        \<and> trace (pause s) = trace s @ [EnginePause, ConsoleLog ''Speech paused'', ShowPaused])"
  by (cases "synth s") (auto simp: ctl_defs hook_defs Let_def)

lemma first_started:
  "utteranceStarted (speak (plainPage []) (Some ''first'') noOptions (SpeechManager (plainPage [])))
   = \<lparr>synth = Some \<lparr>speaking = True, paused = False,
         queue = [\<lparr>rate = 9 / 10, pitch = 1, volume = 8 / 10, voice = None, utterance_text = ''first''\<rparr>],
         dropped = [], catalog = [], accepts = True\<rparr>,
      voices = [],
      currentUtterance = Some \<lparr>rate = 9 / 10, pitch = 1, volume = 8 / 10, voice = None, utterance_text = ''first''\<rparr>,
      isInitialized = False,
      settings = \<lparr>rate = 9 / 10, pitch = 1, volume = 8 / 10, voice = None\<rparr>,
      trace = [EngineGetVoices, ConsoleLogVoices 0 None, EngineCancel, ShowStopped,
        EngineSpeak \<lparr>rate = 9 / 10, pitch = 1, volume = 8 / 10, voice = None, utterance_text = ''first''\<rparr>,
        ConsoleLog ''Speech started'', ShowSpeaking]\<rparr>"
  unfolding first_speak by (simp add: utteranceStarted_def hook_defs)

text \<open>
  A fresh controller is idle, and \<open>pause()\<close> and \<open>resume()\<close> leave it as it is; once the first
  utterance is being spoken, \<open>pause()\<close> pauses the session and the pause hook fires.
\<close>

theorem pause_resume_guards_witness:
  "pause (SpeechManager (plainPage [])) = SpeechManager (plainPage [])
   \<and> resume (SpeechManager (plainPage [])) = SpeechManager (plainPage [])
   \<and> isPaused (pause (utteranceStarted
         (speak (plainPage []) (Some ''first'') noOptions (SpeechManager (plainPage [])))))
   \<and> trace (pause (utteranceStarted
         (speak (plainPage []) (Some ''first'') noOptions (SpeechManager (plainPage [])))))
     = [EngineGetVoices, ConsoleLogVoices 0 None, EngineCancel, ShowStopped,
        EngineSpeak \<lparr>rate = 9 / 10, pitch = 1, volume = 8 / 10, voice = None, utterance_text = ''first''\<rparr>,
        ConsoleLog ''Speech started'', ShowSpeaking,
        EnginePause, ConsoleLog ''Speech paused'', ShowPaused]"
proof -
  let ?new = "SpeechManager (plainPage [])"
  let ?s = "utteranceStarted (speak (plainPage []) (Some ''first'') noOptions ?new)"
  have idle: "\<not> isSpeaking ?new \<and> \<not> isPaused ?new"
    by (simp add: isSpeaking_def isPaused_def synth_new plainPage_def idleEngine_def)
  have speaking: "isSpeaking ?s \<and> \<not> isPaused ?s"
    unfolding first_started by (simp add: isSpeaking_def isPaused_def)
  from pause_resume_guards [of ?new] idle
  have "pause ?new = ?new \<and> resume ?new = ?new" by blast
  moreover from pause_resume_guards [of ?s] speaking
  have "isPaused (pause ?s)
      \<and> trace (pause ?s) = trace ?s @ [EnginePause, ConsoleLog ''Speech paused'', ShowPaused]"
    by blast
  ultimately show ?thesis by (simp add: first_started)
qed

subsection \<open>Stopping\<close>





end
